theory Spec2Isabelle
  imports Main "HOL-Library.Sublist"
begin

section \<open>Data model (internal/agent/types.go)\<close>

text \<open>
  \<open>AgentType\<close> is a Go string type with four named constants; a task may carry any
  other string, for which no agent is registered.
\<close>

type_synonym AgentType = string

definition PlanningAgent :: AgentType where "PlanningAgent = ''planning''"
definition FileAgent :: AgentType where "FileAgent = ''file''"
definition TerminalAgent :: AgentType where "TerminalAgent = ''terminal''"
definition DebugAgent :: AgentType where "DebugAgent = ''debug''"

datatype TaskStatus = TaskPending | TaskRunning | TaskCompleted | TaskFailed

record ProjectStructure =
  Folders :: "string list"
  Files :: "string list"

record ProjectFile =
  Path :: string
  Content :: string

record ProjectPlan =
  Name :: string
  PlanDescription :: string
  Structure :: ProjectStructure
  TechStack :: "(string \<times> string) list"
  Setup :: "string list"
  Dependencies :: "(string \<times> string list) list"
  PlanFiles :: "ProjectFile list"

text \<open>
  The dynamically typed values (\<open>interface{}\<close>) stored in the \<open>Data\<close> maps. The agents
  only ever test whether a value is a string; \<open>VOther\<close> stands for every value of
  another dynamic type (a number, a nested object, ...).
\<close>

datatype any = VString string | VBool bool | VPlan ProjectPlan | VOther string

text \<open>The type assertion \<open>v.(string)\<close> on a map lookup: \<open>None\<close> is \<open>ok = false\<close>.\<close>

fun as_string :: "any option \<Rightarrow> string option" where
  "as_string (Some (VString s)) = Some s"
| "as_string _ = None"

record TaskResult =
  Success :: bool
  ResultData :: "string \<rightharpoonup> any"
  Error :: string

record Task =
  ID :: string
  Type :: AgentType
  Description :: string
  Data :: "string \<rightharpoonup> any"
  Status :: TaskStatus
  CreatedAt :: int
  UpdatedAt :: int
  Result :: "TaskResult option"

record Command =
  CmdID :: string
  CmdCommand :: string
  WorkingDir :: string
  CmdStatus :: string
  Output :: string
  CmdError :: string
  CmdCreatedAt :: int

text \<open>
  A Go error is modelled by its message. A call returning \<open>(T, error)\<close> is a value of
  \<open>string + T\<close>, \<open>Inl\<close> carrying the error message.

  Everything outside the process (the language model, the clock, the file system, the
  shell) acts on a world of type \<open>'w\<close>: each call takes the world and returns the new one.
  A point in time is the integer of its \<open>UnixNano()\<close>, and the zero time is 0.

  Of the interface \<open>LLMClient\<close> only the four operations that the agents call are
  listed. The record \<open>'w Host\<close> below gathers the calls into the Go libraries
  (\<open>time\<close>, \<open>os/exec\<close>, \<open>os\<close>, \<open>path/filepath\<close>, \<open>encoding/json\<close>, \<open>strings\<close>)
  that the command executor, the file manager and the agents make. Logging and the context argument have
  no part in any result and are left out.
\<close>

record ChatMessage =
  Role :: string
  MsgContent :: string

record 'w LLMClient =
  Chat :: "ChatMessage list \<Rightarrow> 'w \<Rightarrow> (string + string) \<times> 'w"
  AnalyzeError :: "string \<Rightarrow> string \<Rightarrow> 'w \<Rightarrow> (string + string) \<times> 'w"
  GenerateCommand :: "string \<Rightarrow> 'w \<Rightarrow> (string + string) \<times> 'w"
  PlanProject :: "string \<Rightarrow> 'w \<Rightarrow> (string + string) \<times> 'w"

text \<open>
  Errors of the \<open>os\<close> package: the only distinction the code draws is \<open>os.IsNotExist\<close>.
\<close>

datatype os_error = ErrNotExist string | ErrOther string

fun os_error_msg :: "os_error \<Rightarrow> string" where
  "os_error_msg (ErrNotExist m) = m"
| "os_error_msg (ErrOther m) = m"

fun os_IsNotExist :: "os_error option \<Rightarrow> bool" where
  "os_IsNotExist (Some (ErrNotExist m)) = True"
| "os_IsNotExist _ = False"

text \<open>
  The outcome of \<open>cmd.Run()\<close>: the two captured streams and the returned error, which is
  either an exit error (the shell ran, the command ended unsuccessfully) or a failure to
  start the shell at all.
\<close>

datatype run_error = ExitError string | StartError string

fun run_error_msg :: "run_error \<Rightarrow> string" where
  "run_error_msg (ExitError m) = m"
| "run_error_msg (StartError m) = m"

record ProcOutcome =
  proc_stdout :: string
  proc_stderr :: string
  proc_err :: "run_error option"

record 'w Host =
  time_Now :: "'w \<Rightarrow> int \<times> 'w"
  exec_Run :: "string \<Rightarrow> string \<Rightarrow> 'w \<Rightarrow> ProcOutcome \<times> 'w"
  os_Stat :: "string \<Rightarrow> 'w \<Rightarrow> os_error option \<times> 'w"
  os_WriteFile :: "string \<Rightarrow> string \<Rightarrow> 'w \<Rightarrow> os_error option \<times> 'w"
  os_MkdirAll :: "string \<Rightarrow> 'w \<Rightarrow> os_error option \<times> 'w"
  os_Create :: "string \<Rightarrow> 'w \<Rightarrow> os_error option \<times> 'w"
  file_WriteString :: "string \<Rightarrow> string \<Rightarrow> 'w \<Rightarrow> os_error option \<times> 'w"
  os_Remove :: "string \<Rightarrow> 'w \<Rightarrow> os_error option \<times> 'w"
  os_ReadFile :: "string \<Rightarrow> 'w \<Rightarrow> (os_error + string) \<times> 'w"
  filepath_Join :: "string \<Rightarrow> string \<Rightarrow> string"
  filepath_Dir :: "string \<Rightarrow> string"
  json_Unmarshal :: "string \<Rightarrow> string + ProjectPlan"
  strings_ToLower :: "string \<Rightarrow> string"
  strings_TrimSpace :: "string \<Rightarrow> string"

text \<open>
  An agent's \<open>Execute(ctx, task)\<close>. None of the four agents of the repository writes to
  the task it is handed, and each returns either a result or an error, never both.
\<close>

type_synonym 'w Agent = "Task \<Rightarrow> 'w \<Rightarrow> (string + TaskResult) \<times> 'w"

record 'w System =
  agents :: "AgentType \<rightharpoonup> 'w Agent"
  results :: "string \<rightharpoonup> TaskResult"

section \<open>Library functions used by the code\<close>

text \<open>
  Go's \<open>strings\<close> functions that work on the bytes of a string: \<open>Contains\<close>,
  \<open>HasPrefix\<close> and \<open>TrimPrefix\<close>. The functions \<open>strings.ToLower\<close> and
  \<open>strings.TrimSpace\<close> depend on the Unicode tables and are fields of the host.
\<close>

fun Contains :: "string \<Rightarrow> string \<Rightarrow> bool" where
  "Contains [] substr = (substr = [])"
| "Contains (c # cs) substr = (prefix substr (c # cs) \<or> Contains cs substr)"

definition HasPrefix :: "string \<Rightarrow> string \<Rightarrow> bool" where
  "HasPrefix s p = prefix p s"

definition TrimPrefix :: "string \<Rightarrow> string \<Rightarrow> string" where
  "TrimPrefix s p = (if HasPrefix s p then drop (length p) s else s)"

text \<open>The verb \<open>%d\<close> of \<open>fmt.Sprintf\<close>: an integer in decimal.\<close>

definition digit_char :: "nat \<Rightarrow> char" where
  "digit_char d = ''0123456789'' ! d"

function nat_to_dec :: "nat \<Rightarrow> string" where
  "nat_to_dec n = (if n < 10 then [digit_char n] else nat_to_dec (n div 10) @ [digit_char (n mod 10)])"
  by pat_completeness auto
termination
  by (relation "measure id") auto

declare nat_to_dec.simps [simp del]

definition int_to_dec :: "int \<Rightarrow> string" where
  "int_to_dec i = (if i < 0 then ''-'' @ nat_to_dec (nat (- i)) else nat_to_dec (nat i))"

text \<open>
  Characters that cannot be written inside a string literal: the double quote and the
  backslash.
\<close>

definition dq :: string where "dq = [CHR 0x22]"
definition bsl :: string where "bsl = [CHR 0x5C]"

definition sq :: string where "sq = [CHR 0x27]"

section \<open>The command executor (internal/agent/commandexecutor.go)\<close>

text \<open>
  \<open>ExecuteCommand\<close> reads the clock, runs \<open>sh -c command\<close> in the working directory and
  builds the record. Its Go return type is \<open>(*Command, error)\<close>.
\<close>

definition ExecuteCommand ::
  "'w Host \<Rightarrow> string \<Rightarrow> string \<Rightarrow> 'w \<Rightarrow> (string + Command) \<times> 'w" where
  "ExecuteCommand h command workingDir w =
     (let (startTime, w1) = time_Now h w;
          (p, w2) = exec_Run h command workingDir w1;
          result = \<lparr>CmdID = ''cmd_'' @ int_to_dec startTime, CmdCommand = command,
                    WorkingDir = workingDir, CmdStatus = ''completed'',
                    Output = proc_stdout p, CmdError = proc_stderr p,
                    CmdCreatedAt = startTime\<rparr>
      in case proc_err p of
           Some e \<Rightarrow>
             (Inr (result\<lparr>CmdStatus := ''failed'',
                     CmdError := run_error_msg e @ '': '' @ proc_stderr p\<rparr>), w2)
         | None \<Rightarrow> (Inr result, w2))"

text \<open>The loop of \<open>ExecuteCommands\<close>, carrying the \<open>results\<close> slice.\<close>

fun commands_loop ::
  "'w Host \<Rightarrow> string \<Rightarrow> Command list \<Rightarrow> string list \<Rightarrow> 'w
     \<Rightarrow> (Command list \<times> string option) \<times> 'w" where
  "commands_loop h workingDir rs [] w = ((rs, None), w)"
| "commands_loop h workingDir rs (command # rest) w =
     (let (r, w1) = ExecuteCommand h command workingDir w
      in case r of
           Inl e \<Rightarrow> ((rs, Some e), w1)
         | Inr result \<Rightarrow>
             (if CmdStatus result = ''failed'' then ((rs @ [result], None), w1)
              else commands_loop h workingDir (rs @ [result]) rest w1))"

definition ExecuteCommands ::
  "'w Host \<Rightarrow> string list \<Rightarrow> string \<Rightarrow> 'w \<Rightarrow> (Command list \<times> string option) \<times> 'w" where
  "ExecuteCommands h commands workingDir w = commands_loop h workingDir [] commands w"

section \<open>The file manager (internal/agent/filemanager.go)\<close>

text \<open>An operation returning \<open>error\<close> gives \<open>None\<close> for nil and the message otherwise.\<close>

definition CreateFile :: "'w Host \<Rightarrow> string \<Rightarrow> string \<Rightarrow> 'w \<Rightarrow> string option \<times> 'w" where
  "CreateFile h path content w =
     (let dir = filepath_Dir h path;
          (e1, w1) = os_MkdirAll h dir w
      in case e1 of
           Some e \<Rightarrow>
             (Some (''failed to create directory for '' @ path @ '': '' @ os_error_msg e), w1)
         | None \<Rightarrow>
             (let (e2, w2) = os_Create h path w1
              in case e2 of
                   Some e \<Rightarrow>
                     (Some (''failed to create file '' @ path @ '': '' @ os_error_msg e), w2)
                 | None \<Rightarrow>
                     (let (e3, w3) = file_WriteString h path content w2
                      in case e3 of
                           Some e \<Rightarrow>
                             (Some (''failed to write to file '' @ path @ '': ''
                                @ os_error_msg e), w3)
                         | None \<Rightarrow> (None, w3))))"

definition FileExists :: "'w Host \<Rightarrow> string \<Rightarrow> 'w \<Rightarrow> bool \<times> 'w" where
  "FileExists h path w = (let (e, w1) = os_Stat h path w in (\<not> os_IsNotExist e, w1))"

definition UpdateFile :: "'w Host \<Rightarrow> string \<Rightarrow> string \<Rightarrow> 'w \<Rightarrow> string option \<times> 'w" where
  "UpdateFile h path content w =
     (let (ex, w1) = FileExists h path w
      in if \<not> ex then (Some (''file does not exist: '' @ path), w1)
         else (let (e, w2) = os_WriteFile h path content w1
               in (map_option os_error_msg e, w2)))"

definition DeleteFile :: "'w Host \<Rightarrow> string \<Rightarrow> 'w \<Rightarrow> string option \<times> 'w" where
  "DeleteFile h path w = (let (e, w1) = os_Remove h path w in (map_option os_error_msg e, w1))"

definition ReadFile :: "'w Host \<Rightarrow> string \<Rightarrow> 'w \<Rightarrow> (string + string) \<times> 'w" where
  "ReadFile h path w =
     (let (r, w1) = os_ReadFile h path w
      in case r of Inl e \<Rightarrow> (Inl (os_error_msg e), w1) | Inr content \<Rightarrow> (Inr content, w1))"

section \<open>The file agent (internal/agent/file.go)\<close>

text \<open>The literal \<open>&TaskResult{Success: false, Error: err.Error()}\<close>.\<close>

definition soft_failure :: "string \<Rightarrow> TaskResult" where
  "soft_failure e = \<lparr>Success = False, ResultData = Map.empty, Error = e\<rparr>"

definition handleCreateFile :: "'w Host \<Rightarrow> 'w Agent" where
  "handleCreateFile h task w =
     (case as_string (Data task ''path'') of
        None \<Rightarrow> (Inl ''path not found in task data'', w)
      | Some path \<Rightarrow>
          (let content = (case as_string (Data task ''content'') of Some c \<Rightarrow> c | None \<Rightarrow> '''')
           in case as_string (Data task ''workspace_dir'') of
                None \<Rightarrow> (Inl ''workspace_dir not found in task data'', w)
              | Some workspaceDir \<Rightarrow>
                  (let fullPath = filepath_Join h workspaceDir path;
                       (e, w1) = CreateFile h fullPath content w
                   in case e of
                        Some m \<Rightarrow> (Inr (soft_failure m), w1)
                      | None \<Rightarrow>
                          (Inr \<lparr>Success = True,
                                ResultData = [''path'' \<mapsto> VString fullPath, ''created'' \<mapsto> VBool True],
                                Error = ''''\<rparr>, w1))))"

definition handleUpdateFile :: "'w Host \<Rightarrow> 'w Agent" where
  "handleUpdateFile h task w =
     (case as_string (Data task ''path'') of
        None \<Rightarrow> (Inl ''path not found in task data'', w)
      | Some path \<Rightarrow>
          (case as_string (Data task ''content'') of
             None \<Rightarrow> (Inl ''content not found for update operation'', w)
           | Some content \<Rightarrow>
               (case as_string (Data task ''workspace_dir'') of
                  None \<Rightarrow> (Inl ''workspace_dir not found in task data'', w)
                | Some workspaceDir \<Rightarrow>
                    (let fullPath = filepath_Join h workspaceDir path;
                         (e, w1) = UpdateFile h fullPath content w
                     in case e of
                          Some m \<Rightarrow> (Inr (soft_failure m), w1)
                        | None \<Rightarrow>
                            (Inr \<lparr>Success = True,
                                  ResultData = [''path'' \<mapsto> VString fullPath, ''updated'' \<mapsto> VBool True],
                                  Error = ''''\<rparr>, w1)))))"

definition handleDeleteFile :: "'w Host \<Rightarrow> 'w Agent" where
  "handleDeleteFile h task w =
     (case as_string (Data task ''path'') of
        None \<Rightarrow> (Inl ''path not found in task data'', w)
      | Some path \<Rightarrow>
          (case as_string (Data task ''workspace_dir'') of
             None \<Rightarrow> (Inl ''workspace_dir not found in task data'', w)
           | Some workspaceDir \<Rightarrow>
               (let fullPath = filepath_Join h workspaceDir path;
                    (e, w1) = DeleteFile h fullPath w
                in case e of
                     Some m \<Rightarrow> (Inr (soft_failure m), w1)
                   | None \<Rightarrow>
                       (Inr \<lparr>Success = True,
                             ResultData = [''path'' \<mapsto> VString fullPath, ''deleted'' \<mapsto> VBool True],
                             Error = ''''\<rparr>, w1))))"

definition handleReadFile :: "'w Host \<Rightarrow> 'w Agent" where
  "handleReadFile h task w =
     (case as_string (Data task ''path'') of
        None \<Rightarrow> (Inl ''path not found in task data'', w)
      | Some path \<Rightarrow>
          (case as_string (Data task ''workspace_dir'') of
             None \<Rightarrow> (Inl ''workspace_dir not found in task data'', w)
           | Some workspaceDir \<Rightarrow>
               (let fullPath = filepath_Join h workspaceDir path;
                    (r, w1) = ReadFile h fullPath w
                in case r of
                     Inl m \<Rightarrow> (Inr (soft_failure m), w1)
                   | Inr content \<Rightarrow>
                       (Inr \<lparr>Success = True,
                             ResultData = [''path'' \<mapsto> VString fullPath, ''content'' \<mapsto> VString content],
                             Error = ''''\<rparr>, w1))))"

definition FileAgentImpl_Execute :: "'w Host \<Rightarrow> 'w Agent" where
  "FileAgentImpl_Execute h task w =
     (case as_string (Data task ''operation'') of
        None \<Rightarrow> (Inl ''operation data not found in task'', w)
      | Some operation \<Rightarrow>
          (if operation = ''create'' then handleCreateFile h task w
           else if operation = ''update'' then handleUpdateFile h task w
           else if operation = ''delete'' then handleDeleteFile h task w
           else if operation = ''read'' then handleReadFile h task w
           else (Inl (''unknown file operation: '' @ operation), w)))"

section \<open>The terminal agent (internal/agent/terminal.go)\<close>

definition TerminalAgentImpl_Execute :: "'w Host \<Rightarrow> 'w LLMClient \<Rightarrow> 'w Agent" where
  "TerminalAgentImpl_Execute h llm task w =
     (case as_string (Data task ''instruction'') of
        None \<Rightarrow> (Inl ''instruction not found in task data'', w)
      | Some instruction \<Rightarrow>
          (let workingDir =
                 (case as_string (Data task ''workspace_dir'') of Some d \<Rightarrow> d | None \<Rightarrow> ''.'');
               (c, w1) = GenerateCommand llm instruction w
           in case c of
                Inl e \<Rightarrow> (Inl (''failed to generate command: '' @ e), w1)
              | Inr command \<Rightarrow>
                  (let (r, w2) = ExecuteCommand h command workingDir w1
                   in case r of
                        Inl e \<Rightarrow> (Inr (soft_failure e), w2)
                      | Inr result \<Rightarrow>
                          (Inr \<lparr>Success = (CmdError result = ''''),
                                ResultData = [''command'' \<mapsto> VString command,
                                  ''output'' \<mapsto> VString (Output result),
                                  ''error'' \<mapsto> VString (CmdError result)],
                                Error = ''''\<rparr>, w2))))"

section \<open>The planning agent\<close>

definition SystemPrompt :: string where
  "SystemPrompt =
     ''You are an assistant that helps with code and terminal automation. Only suggest or execute terminal commands if the user explicitly asks for it (e.g., '' @
     dq @ ''run this in terminal'' @ dq @ '', '' @ dq @ ''execute'' @ dq @ '', '' @
     dq @ ''open terminal and...'' @ dq @
     ''). For all other requests, provide code, explanations, or other help as appropriate. Never assume a command should be run unless the user is clear.''"

definition generic_plan_prompt :: "string \<Rightarrow> string" where
  "generic_plan_prompt request =
     SystemPrompt @
     ''\<newline>User request: '' @ dq @ request @
     dq @ ''\<newline>Generate a JSON array of tasks. Each task must have a '' @ dq @
     ''type'' @ dq @ '' (e.g., '' @ dq @ ''file'' @ dq @ '', '' @ dq @ ''terminal'' @
     dq @ ''), a '' @ dq @ ''description'' @ dq @ '', and a '' @ dq @ ''data'' @ dq @
     '' object with necessary parameters.\<newline>For file tasks, data should include '' @
     dq @ ''operation'' @ dq @ '', '' @ dq @ ''path'' @ dq @ '', and '' @ dq @
     ''content'' @ dq @ ''.\<newline>For terminal tasks, data should include '' @ dq @
     ''instruction'' @ dq @ ''.\<newline>\<newline>Example Request: '' @ dq @
     ''create a new directory called '' @ sq @ ''server'' @ sq @
     '' and inside it, create a file named '' @ sq @ ''main.go'' @ sq @
     '' with a basic hello world program'' @ dq @
     ''\<newline>Example Response:\<newline>[\<newline>  {\<newline>    '' @ dq @
     ''type'' @ dq @ '': '' @ dq @ ''file'' @ dq @ '',\<newline>    '' @ dq @
     ''description'' @ dq @ '': '' @ dq @ ''Create main.go'' @ dq @
     '',\<newline>    '' @ dq @ ''data'' @ dq @ '': {\<newline>      '' @ dq @
     ''operation'' @ dq @ '': '' @ dq @ ''create'' @ dq @ '',\<newline>      '' @ dq @
     ''path'' @ dq @ '': '' @ dq @ ''server/main.go'' @ dq @ '',\<newline>      '' @
     dq @ ''content'' @ dq @ '': '' @ dq @ ''package main'' @ bsl @ ''n'' @ bsl @
     ''nimport '' @ bsl @ dq @ ''fmt'' @ bsl @ dq @ bsl @ ''n'' @ bsl @
     ''nfunc main() {'' @ bsl @ ''n'' @ bsl @ ''tfmt.Println('' @ bsl @ dq @
     ''hello world'' @ bsl @ dq @ '')'' @ bsl @ ''n}'' @ dq @
     ''\<newline>    }\<newline>  }\<newline>]''"

definition createGenericPlan :: "'w LLMClient \<Rightarrow> string \<Rightarrow> 'w \<Rightarrow> (string + string) \<times> 'w" where
  "createGenericPlan llm request w =
     (let prompt = generic_plan_prompt request;
          messages = [\<lparr>Role = ''system'', MsgContent = SystemPrompt\<rparr>,
                      \<lparr>Role = ''user'', MsgContent = prompt\<rparr>];
          (r, w1) = Chat llm messages w
      in case r of
           Inl e \<Rightarrow> (Inl (''LLM failed to generate a plan: '' @ e), w1)
         | Inr planJSON \<Rightarrow> (Inr planJSON, w1))"

definition handleExplainRequest :: "'w LLMClient \<Rightarrow> string \<Rightarrow> 'w \<Rightarrow> (string + string) \<times> 'w" where
  "handleExplainRequest llm target w =
     (let prompt = ''Explain the following code or concept in a clear, concise way for a developer: ''
            @ dq @ target @ dq;
          messages = [\<lparr>Role = ''system'', MsgContent = ''You are an expert programming instructor.''\<rparr>,
                      \<lparr>Role = ''user'', MsgContent = prompt\<rparr>]
      in Chat llm messages w)"

definition handleProjectCreation ::
  "'w Host \<Rightarrow> 'w LLMClient \<Rightarrow> string \<Rightarrow> 'w \<Rightarrow> (string + ProjectPlan) \<times> 'w" where
  "handleProjectCreation h llm description w =
     (let (r, w1) = PlanProject llm description w
      in case r of
           Inl e \<Rightarrow> (Inl (''LLM failed to generate project plan: '' @ e), w1)
         | Inr planJSON \<Rightarrow>
             (case json_Unmarshal h planJSON of
                Inl e \<Rightarrow>
                  (Inl (''failed to parse project plan JSON from LLM: '' @ e
                     @ ''. Raw response: '' @ planJSON), w1)
              | Inr plan \<Rightarrow> (Inr plan, w1)))"

definition PlanningAgentImpl_Execute :: "'w Host \<Rightarrow> 'w LLMClient \<Rightarrow> 'w Agent" where
  "PlanningAgentImpl_Execute h llm task w =
     (case as_string (Data task ''request'') of
        None \<Rightarrow> (Inl ''request data not found in task'', w)
      | Some request \<Rightarrow>
          (if HasPrefix request ''/create-project'' then
             (let description = strings_TrimSpace h (TrimPrefix request ''/create-project'');
                  (r, w1) = handleProjectCreation h llm description w
              in case r of
                   Inl e \<Rightarrow> (Inl e, w1)
                 | Inr plan \<Rightarrow>
                     (Inr \<lparr>Success = True, ResultData = [''plan'' \<mapsto> VPlan plan],
                           Error = ''''\<rparr>, w1))
           else if HasPrefix request ''/explain'' then
             (let target = strings_TrimSpace h (TrimPrefix request ''/explain'');
                  (r, w1) = handleExplainRequest llm target w
              in case r of
                   Inl e \<Rightarrow> (Inl e, w1)
                 | Inr explanation \<Rightarrow>
                     (Inr \<lparr>Success = True,
                           ResultData = [''explanation'' \<mapsto> VString explanation],
                           Error = ''''\<rparr>, w1))
           else
             (let (r, w1) = createGenericPlan llm request w
              in case r of
                   Inl e \<Rightarrow> (Inl (''failed to create plan: '' @ e), w1)
                 | Inr plan \<Rightarrow>
                     (Inr \<lparr>Success = True, ResultData = [''plan'' \<mapsto> VString plan],
                           Error = ''''\<rparr>, w1))))"

section \<open>The debug agent\<close>

definition identifyErrorFile :: "string \<Rightarrow> string \<Rightarrow> string \<times> string" where
  "identifyErrorFile errorOutput workspaceDir = ('''', '''')"

definition generateFix ::
  "'w LLMClient \<Rightarrow> string \<Rightarrow> string \<Rightarrow> string \<Rightarrow> 'w \<Rightarrow> (string + string) \<times> 'w" where
  "generateFix llm errorOutput fileContent analysis w =
     (let prompt = ''Based on this error analysis:\<newline>\<newline>'' @ analysis
            @ ''\<newline>\<newline>And the original error:\<newline>'' @ errorOutput
            @ ''\<newline>\<newline>Generate the corrected code. Provide only the fixed code, no explanations.'';
          messages =
            [\<lparr>Role = ''system'',
              MsgContent = ''You are an expert debugger. Generate corrected code based on error analysis.''\<rparr>,
             \<lparr>Role = ''user'', MsgContent = prompt\<rparr>]
      in Chat llm messages w)"

definition DebugAgentImpl_Execute :: "'w LLMClient \<Rightarrow> 'w Agent" where
  "DebugAgentImpl_Execute llm task w =
     (case as_string (Data task ''error_output'') of
        None \<Rightarrow> (Inl ''error_output not found in task data'', w)
      | Some errorOutput \<Rightarrow>
          (let workspaceDir =
                 (case as_string (Data task ''workspace_dir'') of Some d \<Rightarrow> d | None \<Rightarrow> ''.'');
               (filePath, fileContent) = identifyErrorFile errorOutput workspaceDir;
               (a, w1) = AnalyzeError llm errorOutput fileContent w
           in case a of
                Inl e \<Rightarrow> (Inl (''failed to analyze error: '' @ e), w1)
              | Inr analysis \<Rightarrow>
                  (let (f, w2) = generateFix llm errorOutput fileContent analysis w1
                   in case f of
                        Inl e \<Rightarrow> (Inl (''failed to generate fix: '' @ e), w2)
                      | Inr fix \<Rightarrow>
                          (Inr \<lparr>Success = True,
                                ResultData = [''analysis'' \<mapsto> VString analysis,
                                  ''fix'' \<mapsto> VString fix, ''file'' \<mapsto> VString filePath],
                                Error = ''''\<rparr>, w2))))"

section \<open>The orchestrator (internal/agent/system.go)\<close>

text \<open>
  What \<open>ExecuteTask\<close> returns: \<open>Returned r\<close> is \<open>(r, nil)\<close>; \<open>Raised r e\<close> is
  \<open>(r, e)\<close> with a non-nil error \<open>e\<close>, where \<open>r = None\<close> is the nil result.
\<close>

datatype TaskReturn = Returned TaskResult | Raised "TaskResult option" string

text \<open>
  The task is a shared object that \<open>ExecuteTask\<close> writes to several times. \<open>history\<close>
  lists the successive values of that object: the task as passed in, then its value after
  each group of assignments.
\<close>

record 'w ExecOutcome =
  returned :: TaskReturn
  history :: "Task list"
  system :: "'w System"
  world :: 'w

definition ExecuteTask :: "'w Host \<Rightarrow> 'w System \<Rightarrow> Task \<Rightarrow> 'w \<Rightarrow> 'w ExecOutcome" where
  "ExecuteTask h s task w =
     (case agents s (Type task) of
        None \<Rightarrow>
          \<lparr>returned = Raised None (''agent type '' @ Type task @ '' not found''),
           history = [task], system = s, world = w\<rparr>
      | Some agent \<Rightarrow>
          (let (t1, w1) = time_Now h w;
               running = task\<lparr>Status := TaskRunning, UpdatedAt := t1\<rparr>;
               (r, w2) = agent running w1
           in case r of
                Inl e \<Rightarrow>
                  (let failed = running\<lparr>Status := TaskFailed,
                         Result := Some \<lparr>Success = False, ResultData = Map.empty, Error = e\<rparr>\<rparr>
                   in \<lparr>returned = Raised (Result failed) e,
                       history = [task, running, failed], system = s, world = w2\<rparr>)
              | Inr result \<Rightarrow>
                  (let (t2, w3) = time_Now h w2;
                       completed = running\<lparr>Status := TaskCompleted, Result := Some result,
                         UpdatedAt := t2\<rparr>
                   in \<lparr>returned = Returned result,
                       history = [task, running, completed],
                       system = s\<lparr>results := (results s)(ID task \<mapsto> result)\<rparr>,
                       world = w3\<rparr>)))"

definition GetTaskResult :: "'w System \<Rightarrow> string \<Rightarrow> TaskResult option" where
  "GetTaskResult s taskID = results s taskID"

text \<open>\<open>generateTaskID\<close>: \<open>fmt.Sprintf("task_%d", time.Now().UnixNano())\<close>.\<close>

definition generateTaskID :: "'w Host \<Rightarrow> 'w \<Rightarrow> string \<times> 'w" where
  "generateTaskID h w = (let (t, w1) = time_Now h w in (''task_'' @ int_to_dec t, w1))"

definition terminal_keywords :: "string list" where
  "terminal_keywords =
     [''run in terminal'', ''execute'', ''open terminal'', ''run command'', ''shell'',
      ''bash'', ''powershell'', ''/run'']"

text \<open>The loop of \<open>isTerminalIntent\<close> over the keywords, returning at the first hit.\<close>

fun keyword_loop :: "string \<Rightarrow> string list \<Rightarrow> bool" where
  "keyword_loop inputLower [] = False"
| "keyword_loop inputLower (k # ks) =
     (if Contains inputLower k then True else keyword_loop inputLower ks)"

definition isTerminalIntent :: "'w Host \<Rightarrow> string \<Rightarrow> bool" where
  "isTerminalIntent h input = keyword_loop (strings_ToLower h input) terminal_keywords"

text \<open>
  A task literal \<open>&Task{ID: generateTaskID(), ..., Status: TaskPending, CreatedAt:
  time.Now()}\<close>: the clock is read twice, in this order; \<open>UpdatedAt\<close> and \<open>Result\<close> keep
  their zero values.
\<close>

definition new_task ::
  "'w Host \<Rightarrow> AgentType \<Rightarrow> string \<Rightarrow> (string \<rightharpoonup> any) \<Rightarrow> 'w \<Rightarrow> Task \<times> 'w" where
  "new_task h ty descr payload w =
     (let (tid, w1) = generateTaskID h w;
          (t, w2) = time_Now h w1
      in (\<lparr>ID = tid, Type = ty, Description = descr, Data = payload, Status = TaskPending,
           CreatedAt = t, UpdatedAt = 0, Result = None\<rparr>, w2))"

definition ProcessUserRequest ::
  "'w Host \<Rightarrow> 'w System \<Rightarrow> string \<Rightarrow> string \<Rightarrow> 'w \<Rightarrow> 'w ExecOutcome" where
  "ProcessUserRequest h s request workspaceDir w =
     (if isTerminalIntent h request then
        (let (task, w1) = new_task h TerminalAgent ''Execute terminal command (intent classified)''
               [''instruction'' \<mapsto> VString request, ''workspace_dir'' \<mapsto> VString workspaceDir] w
         in ExecuteTask h s task w1)
      else
        (let (planningTask, w1) = new_task h PlanningAgent ''Plan and execute user request''
               [''request'' \<mapsto> VString request, ''workspace_dir'' \<mapsto> VString workspaceDir] w;
             out = ExecuteTask h s planningTask w1
         in case returned out of
              Raised r e \<Rightarrow> out\<lparr>returned := Raised None (''failed to process request: '' @ e)\<rparr>
            | Returned result \<Rightarrow> out))"




definition handleFixCommand ::
  "'w Host \<Rightarrow> 'w System \<Rightarrow> string \<Rightarrow> string \<Rightarrow> 'w \<Rightarrow> 'w ExecOutcome" where
  "handleFixCommand h s errorOutput workspaceDir w =
     (let (task, w1) = new_task h DebugAgent ''Fix error in code''
            [''error_output'' \<mapsto> VString errorOutput, ''workspace_dir'' \<mapsto> VString workspaceDir] w
      in ExecuteTask h s task w1)"

definition handleRunCommand ::
  "'w Host \<Rightarrow> 'w System \<Rightarrow> string \<Rightarrow> string \<Rightarrow> 'w \<Rightarrow> 'w ExecOutcome" where
  "handleRunCommand h s instruction workspaceDir w =
     (let (task, w1) = new_task h TerminalAgent ''Execute command''
            [''instruction'' \<mapsto> VString instruction, ''workspace_dir'' \<mapsto> VString workspaceDir] w
      in ExecuteTask h s task w1)"

definition handleExplainCommand ::
  "'w Host \<Rightarrow> 'w System \<Rightarrow> string \<Rightarrow> string \<Rightarrow> 'w \<Rightarrow> 'w ExecOutcome" where
  "handleExplainCommand h s target workspaceDir w =
     (let (task, w1) = new_task h PlanningAgent ''Explain code or concept''
            [''target'' \<mapsto> VString target, ''workspace_dir'' \<mapsto> VString workspaceDir] w
      in ExecuteTask h s task w1)"

definition handleCreateProjectCommand ::
  "'w Host \<Rightarrow> 'w System \<Rightarrow> string \<Rightarrow> string \<Rightarrow> 'w \<Rightarrow> 'w ExecOutcome" where
  "handleCreateProjectCommand h s description workspaceDir w =
     (let (task, w1) = new_task h PlanningAgent ''Create project from description''
            [''description'' \<mapsto> VString description, ''workspace_dir'' \<mapsto> VString workspaceDir] w
      in ExecuteTask h s task w1)"

text \<open>
  \<open>HandleCommand\<close>. For an unknown verb no task object exists, so the history is empty.
\<close>

definition HandleCommand ::
  "'w Host \<Rightarrow> 'w System \<Rightarrow> string \<Rightarrow> string \<Rightarrow> string \<Rightarrow> 'w \<Rightarrow> 'w ExecOutcome" where
  "HandleCommand h s command args workspaceDir w =
     (if command = ''/fix'' then handleFixCommand h s args workspaceDir w
      else if command = ''/run'' then handleRunCommand h s args workspaceDir w
      else if command = ''/explain'' then handleExplainCommand h s args workspaceDir w
      else if command = ''/create-project'' then handleCreateProjectCommand h s args workspaceDir w
      else \<lparr>returned = Raised None (''unknown command: '' @ command), history = [],
             system = s, world = w\<rparr>)"

text \<open>
  \<open>NewSystem\<close>: the registry of the four agents and an empty result store. The task
  queue and its background consumer are not part of this model.
\<close>

definition NewSystem :: "'w Host \<Rightarrow> 'w LLMClient \<Rightarrow> 'w System" where
  "NewSystem h llmClient =
     \<lparr>agents = [PlanningAgent \<mapsto> PlanningAgentImpl_Execute h llmClient,
                FileAgent \<mapsto> FileAgentImpl_Execute h,
                TerminalAgent \<mapsto> TerminalAgentImpl_Execute h llmClient,
                DebugAgent \<mapsto> DebugAgentImpl_Execute llmClient],
      results = Map.empty\<rparr>"

section \<open>A concrete host for running the model\<close>

text \<open>
  A small in-memory world: a clock that advances at every reading, a flat file store and
  a log of the calls made to the shell and to the language model. It is used to run the
  model on concrete inputs.
\<close>

record TestWorld =
  clock :: int
  files :: "string \<rightharpoonup> string"
  calls :: "string list"

text \<open>
  The concrete host lowers and trims ASCII text: the letters \<open>A\<close> to \<open>Z\<close> are lowered
  and every other byte is kept; white space is space, tab, line feed, vertical tab, form
  feed and carriage return. On a string of ASCII characters this is what
  \<open>strings.ToLower\<close> and \<open>strings.TrimSpace\<close> compute.
\<close>

definition to_lower_char :: "char \<Rightarrow> char" where
  "to_lower_char c =
     (case map_of (zip ''ABCDEFGHIJKLMNOPQRSTUVWXYZ'' ''abcdefghijklmnopqrstuvwxyz'') c of
        Some l \<Rightarrow> l
      | None \<Rightarrow> c)"

definition ascii_ToLower :: "string \<Rightarrow> string" where
  "ascii_ToLower s = map to_lower_char s"

definition is_space :: "char \<Rightarrow> bool" where
  "is_space c = (c \<in> set [CHR 0x20, CHR 0x09, CHR 0x0A, CHR 0x0B, CHR 0x0C, CHR 0x0D])"

definition ascii_TrimSpace :: "string \<Rightarrow> string" where
  "ascii_TrimSpace s = rev (dropWhile is_space (rev (dropWhile is_space s)))"

text \<open>The plan that the JSON text \<open>{}\<close> decodes to: every field has its zero value.\<close>

definition empty_plan :: ProjectPlan where
  "empty_plan =
     \<lparr>Name = '''', PlanDescription = '''', Structure = \<lparr>Folders = [], Files = []\<rparr>,
      TechStack = [], Setup = [], Dependencies = [], PlanFiles = []\<rparr>"

definition test_shell :: "string \<Rightarrow> ProcOutcome" where
  "test_shell command =
     (if command = ''true'' then \<lparr>proc_stdout = [], proc_stderr = [], proc_err = None\<rparr>
      else if command = ''false'' then
        \<lparr>proc_stdout = [], proc_stderr = [], proc_err = Some (ExitError ''exit status 1'')\<rparr>
      else if command = ''warn'' then
        \<lparr>proc_stdout = ''done'', proc_stderr = ''warning'', proc_err = None\<rparr>
      else \<lparr>proc_stdout = [], proc_stderr = ''sh: not found'',
             proc_err = Some (ExitError ''exit status 127'')\<rparr>)"

definition test_host :: "TestWorld Host" where
  "test_host =
     \<lparr>time_Now = (\<lambda>w. (clock w, w\<lparr>clock := clock w + 1\<rparr>)),
      exec_Run = (\<lambda>command dir w. (test_shell command, w\<lparr>calls := calls w @ [''sh '' @ command]\<rparr>)),
      os_Stat = (\<lambda>p w. (case files w p of
                             None \<Rightarrow> Some (ErrNotExist (''stat '' @ p @ '': no such file or directory''))
                           | Some c \<Rightarrow> None, w)),
      os_WriteFile = (\<lambda>p c w. (None, w\<lparr>files := (files w)(p \<mapsto> c)\<rparr>)),
      os_MkdirAll = (\<lambda>p w. (None, w)),
      os_Create = (\<lambda>p w. (None, w\<lparr>files := (files w)(p \<mapsto> [])\<rparr>)),
      file_WriteString = (\<lambda>p c w. (None, w\<lparr>files := (files w)(p \<mapsto> c)\<rparr>)),
      os_Remove = (\<lambda>p w. (case files w p of
                               None \<Rightarrow> Some (ErrNotExist (''remove '' @ p @ '': no such file or directory''))
                             | Some c \<Rightarrow> None, w\<lparr>files := (files w)(p := None)\<rparr>)),
      os_ReadFile = (\<lambda>p w. (case files w p of
                                 None \<Rightarrow> Inl (ErrNotExist (''open '' @ p @ '': no such file or directory''))
                               | Some c \<Rightarrow> Inr c, w)),
      filepath_Join = (\<lambda>a b. a @ ''/'' @ b),
      filepath_Dir = (\<lambda>p. rev (drop 1 (dropWhile (\<lambda>c. c \<noteq> CHR ''/'') (rev p)))),
      json_Unmarshal = (\<lambda>s. if s = ''{}'' then Inr empty_plan
                             else Inl ''unexpected end of JSON input''),
      strings_ToLower = ascii_ToLower,
      strings_TrimSpace = ascii_TrimSpace\<rparr>"

text \<open>A host on which the shell itself cannot be started.\<close>

definition test_host_no_shell :: "TestWorld Host" where
  "test_host_no_shell =
     test_host\<lparr>exec_Run := (\<lambda>command dir w.
        (\<lparr>proc_stdout = [], proc_stderr = [],
          proc_err = Some (StartError
            (''exec: '' @ dq @ ''sh'' @ dq @ '': executable file not found in $PATH''))\<rparr>,
         w\<lparr>calls := calls w @ [''sh '' @ command]\<rparr>))\<rparr>"





text \<open>
  A language model that answers every instruction with the instruction itself as the
  command, and every other question with a fixed text.
\<close>

definition test_llm :: "TestWorld LLMClient" where
  "test_llm =
     \<lparr>Chat = (\<lambda>messages w. (Inr ''[]'', w\<lparr>calls := calls w @ [''llm Chat'']\<rparr>)),
      AnalyzeError = (\<lambda>errorOutput fileContent w.
        (Inr ''analysis'', w\<lparr>calls := calls w @ [''llm AnalyzeError'']\<rparr>)),
      GenerateCommand = (\<lambda>instruction w.
        (Inr instruction, w\<lparr>calls := calls w @ [''llm GenerateCommand'']\<rparr>)),
      PlanProject = (\<lambda>description w.
        (Inr ''{}'', w\<lparr>calls := calls w @ [''llm PlanProject'']\<rparr>))\<rparr>"

definition test_world :: TestWorld where
  "test_world = \<lparr>clock = 1000, files = Map.empty, calls = []\<rparr>"

definition test_system :: "TestWorld System" where
  "test_system = NewSystem test_host test_llm"

text \<open>Three file tasks: the second updates a file that does not exist.\<close>

definition file_task :: "string \<Rightarrow> string \<Rightarrow> string \<Rightarrow> Task" where
  "file_task tid operation path =
     \<lparr>ID = tid, Type = FileAgent, Description = ''file task'',
      Data = [''operation'' \<mapsto> VString operation, ''path'' \<mapsto> VString path,
              ''content'' \<mapsto> VString ''x'', ''workspace_dir'' \<mapsto> VString ''/ws''],
      Status = TaskPending, CreatedAt = 0, UpdatedAt = 0, Result = None\<rparr>"

text \<open>A file task without the \<open>operation\<close> key, which the file agent rejects.\<close>

definition malformed_task :: "string \<Rightarrow> Task" where
  "malformed_task tid =
     \<lparr>ID = tid, Type = FileAgent, Description = ''file task'',
      Data = [''path'' \<mapsto> VString ''b.txt'', ''workspace_dir'' \<mapsto> VString ''/ws''],
      Status = TaskPending, CreatedAt = 0, UpdatedAt = 0, Result = None\<rparr>"


text \<open>A terminal task carrying the given instruction.\<close>

definition terminal_task :: "string \<Rightarrow> Task" where
  "terminal_task instruction =
     \<lparr>ID = ''t0'', Type = TerminalAgent, Description = ''Execute command'',
      Data = [''instruction'' \<mapsto> VString instruction, ''workspace_dir'' \<mapsto> VString ''/ws''],
      Status = TaskPending, CreatedAt = 0, UpdatedAt = 0, Result = None\<rparr>"

section \<open>Notions used to state the properties\<close>

text \<open>
  What the agent answers when \<open>ExecuteTask\<close> invokes it: the agent is handed the task
  in status Running, in the world left by the first clock reading.
\<close>

definition agent_reply :: "'w Host \<Rightarrow> 'w Agent \<Rightarrow> Task \<Rightarrow> 'w \<Rightarrow> string + TaskResult" where
  "agent_reply h agent task w =
     (let (t1, w1) = time_Now h w
      in fst (agent (task\<lparr>Status := TaskRunning, UpdatedAt := t1\<rparr>) w1))"

text \<open>
  The table of special commands as the specification words it: the verb, the kind of the
  task and the payload key that receives the arguments. The specification writes the key
  of \<open>/fix\<close> as \<open>errorOutput\<close> and the directory key as \<open>workspaceDir\<close>; in the code they
  are spelled \<open>error_output\<close> and \<open>workspace_dir\<close>.
\<close>

definition spec_dispatch :: "string \<Rightarrow> (AgentType \<times> string) option" where
  "spec_dispatch command =
     (if command = ''/fix'' then Some (DebugAgent, ''error_output'')
      else if command = ''/run'' then Some (TerminalAgent, ''instruction'')
      else if command = ''/explain'' then Some (PlanningAgent, ''target'')
      else if command = ''/create-project'' then Some (PlanningAgent, ''description'')
      else None)"

section \<open>Evaluation rules for the concrete host\<close>

lemmas test_defs = test_system_def NewSystem_def test_host_def test_llm_def test_world_def
  file_task_def malformed_task_def terminal_task_def PlanningAgent_def FileAgent_def TerminalAgent_def
  DebugAgent_def

lemmas file_agent_defs = FileAgentImpl_Execute_def handleUpdateFile_def handleCreateFile_def
  UpdateFile_def CreateFile_def FileExists_def soft_failure_def

section \<open>Task status transitions\<close>

text \<open>
  Claim C1, as amended. For a task whose kind has a registered agent, \<open>ExecuteTask\<close>
  writes the status exactly twice: Running before the agent is invoked, and then one final
  status. The final status is Completed exactly when the agent returned a result,
  whatever its \<open>Success\<close> flag, and that result is returned; it is Failed exactly when the
  agent raised a hard failure, and then the failure result and the error are returned.
  A task that enters in status Pending therefore goes Pending, Running, then Completed or
  Failed, and is never set back to Pending or Running.
\<close>

theorem ExecuteTask_status_sequence:
  assumes "agents s (Type task) = Some agent"
  shows "map Status (history (ExecuteTask h s task w)) =
           [Status task, TaskRunning,
            (case agent_reply h agent task w of Inl e \<Rightarrow> TaskFailed | Inr r \<Rightarrow> TaskCompleted)]
         \<and> (case agent_reply h agent task w of
               Inl e \<Rightarrow> returned (ExecuteTask h s task w) = Raised (Some (soft_failure e)) e
             | Inr r \<Rightarrow> returned (ExecuteTask h s task w) = Returned r)"
  using assms
  by (auto simp: ExecuteTask_def agent_reply_def soft_failure_def Let_def
      split: prod.splits sum.splits)

text \<open>
  The theorem at a file task that updates a missing file: the file agent returns a result
  with \<open>Success = False\<close>, and the task ends Completed.
\<close>

theorem ExecuteTask_status_sequence_witness:
  "agents test_system (Type (file_task ''t2'' ''update'' ''b.txt''))
     = Some (FileAgentImpl_Execute test_host)
   \<and> map Status (history (ExecuteTask test_host test_system
         (file_task ''t2'' ''update'' ''b.txt'') test_world))
       = [TaskPending, TaskRunning, TaskCompleted]
   \<and> returned (ExecuteTask test_host test_system (file_task ''t2'' ''update'' ''b.txt'') test_world)
       = Returned (soft_failure ''file does not exist: /ws/b.txt'')"
  using ExecuteTask_status_sequence [of test_system "file_task ''t2'' ''update'' ''b.txt''"
      "FileAgentImpl_Execute test_host" test_host test_world]
  by (simp add: agent_reply_def test_defs file_agent_defs)

text \<open>
  Claim C1 as stated fails: here the agent returned \<open>Success = False\<close> and the final
  status is Completed, not Failed.
\<close>

theorem soft_failure_completes_counterexample:
  "agent_reply test_host (FileAgentImpl_Execute test_host)
       (file_task ''t2'' ''update'' ''b.txt'') test_world
     = Inr (soft_failure ''file does not exist: /ws/b.txt'')
   \<and> Success (soft_failure ''file does not exist: /ws/b.txt'') = False
   \<and> Status (last (history (ExecuteTask test_host test_system
         (file_task ''t2'' ''update'' ''b.txt'') test_world)))
       = TaskCompleted"
  by (simp add: ExecuteTask_def agent_reply_def test_defs file_agent_defs)


section \<open>Special commands that reach the planning agent\<close>

text \<open>
  Claim C2. \<open>HandleCommand\<close> with the verb \<open>/explain\<close> or \<open>/create-project\<close> builds a
  planning task whose payload has the key \<open>target\<close> (respectively \<open>description\<close>) and
  \<open>workspace_dir\<close>, and no key \<open>request\<close>. The planning agent requires \<open>request\<close>, so
  every such call is a hard failure with the error \<open>request data not found in task\<close>;
  the task ends Failed, the result store is unchanged, and the world has only seen the
  three clock readings: the language model is never asked, so neither the \<open>/explain\<close> nor
  the \<open>/create-project\<close> path of the planning agent is reached.
\<close>

theorem HandleCommand_explain_create_project_hard_failure:
  assumes "agents s PlanningAgent = Some (PlanningAgentImpl_Execute h llm)"
    and "command = ''/explain'' \<or> command = ''/create-project''"
  shows "returned (HandleCommand h s command args workspaceDir w)
           = Raised (Some (soft_failure ''request data not found in task''))
               ''request data not found in task''
         \<and> Data (hd (history (HandleCommand h s command args workspaceDir w)))
           = [(if command = ''/explain'' then ''target'' else ''description'') \<mapsto> VString args,
              ''workspace_dir'' \<mapsto> VString workspaceDir]
         \<and> map Status (history (HandleCommand h s command args workspaceDir w))
           = [TaskPending, TaskRunning, TaskFailed]
         \<and> system (HandleCommand h s command args workspaceDir w) = s
         \<and> world (HandleCommand h s command args workspaceDir w)
           = snd (time_Now h (snd (time_Now h (snd (time_Now h w)))))"
  using assms
  by (auto simp: HandleCommand_def handleExplainCommand_def handleCreateProjectCommand_def
      ExecuteTask_def new_task_def generateTaskID_def PlanningAgentImpl_Execute_def
      soft_failure_def Let_def split: prod.splits)

theorem HandleCommand_explain_create_project_hard_failure_witness:
  "agents test_system PlanningAgent = Some (PlanningAgentImpl_Execute test_host test_llm)
   \<and> returned (HandleCommand test_host test_system ''/explain'' ''main.go'' ''/ws'' test_world)
       = Raised (Some (soft_failure ''request data not found in task''))
           ''request data not found in task''
   \<and> calls (world (HandleCommand test_host test_system ''/explain'' ''main.go'' ''/ws'' test_world)) = []
   \<and> returned (HandleCommand test_host test_system ''/create-project'' ''a web app'' ''/ws'' test_world)
       = Raised (Some (soft_failure ''request data not found in task''))
           ''request data not found in task''
   \<and> calls (world (HandleCommand test_host test_system ''/create-project'' ''a web app'' ''/ws'' test_world)) = []"
proof -
  have reg: "agents test_system PlanningAgent = Some (PlanningAgentImpl_Execute test_host test_llm)"
    by (simp add: test_system_def NewSystem_def PlanningAgent_def FileAgent_def
        TerminalAgent_def DebugAgent_def)
  show ?thesis
    using reg
      HandleCommand_explain_create_project_hard_failure [OF reg, of "''/explain''"
        "''main.go''" "''/ws''" test_world]
      HandleCommand_explain_create_project_hard_failure [OF reg, of "''/create-project''"
        "''a web app''" "''/ws''" test_world]
    by (simp add: test_host_def test_world_def)
qed

section \<open>The result store\<close>

text \<open>When the agent returns a result, \<open>ExecuteTask\<close> stores it under the task's id.\<close>

lemma ExecuteTask_stores_returned_result:
  assumes "agents s (Type task) = Some agent"
    and "agent_reply h agent task w = Inr r"
  shows "GetTaskResult (system (ExecuteTask h s task w)) (ID task) = Some r"
  using assms
  by (auto simp: ExecuteTask_def agent_reply_def GetTaskResult_def Let_def
      split: prod.splits sum.splits)

text \<open>When the agent raises a hard failure, the store is left as it was.\<close>

lemma ExecuteTask_store_unchanged_on_error:
  assumes "agents s (Type task) = Some agent"
    and "agent_reply h agent task w = Inl e"
  shows "system (ExecuteTask h s task w) = s"
  using assms
  by (auto simp: ExecuteTask_def agent_reply_def Let_def split: prod.splits sum.splits)

text \<open>
  Claim C4 at a hard failure. The call \<open>HandleCommand "/explain" "main.go" "/ws"\<close> builds
  the task \<open>task_1000\<close>, whose agent is registered and raises a hard failure.
  \<open>ExecuteTask\<close> returns the failure result, but a lookup of \<open>task_1000\<close> in the result
  store afterwards finds nothing: the error branch returns before the store is written.
\<close>

theorem hard_failure_result_not_stored:
  "returned (HandleCommand test_host test_system ''/explain'' ''main.go'' ''/ws'' test_world)
       = Raised (Some (soft_failure ''request data not found in task''))
           ''request data not found in task''
   \<and> map ID (history (HandleCommand test_host test_system ''/explain'' ''main.go'' ''/ws'' test_world))
       = [''task_1000'', ''task_1000'', ''task_1000'']
   \<and> GetTaskResult (system (HandleCommand test_host test_system ''/explain'' ''main.go'' ''/ws'' test_world))
        ''task_1000'' = None"
  by (simp add: HandleCommand_def handleExplainCommand_def ExecuteTask_def new_task_def
      generateTaskID_def PlanningAgentImpl_Execute_def soft_failure_def GetTaskResult_def
      int_to_dec_def nat_to_dec.simps digit_char_def test_defs)

section \<open>Chains of tasks\<close>








section \<open>Running commands\<close>

lemmas command_eval = ExecuteCommands_def ExecuteCommand_def Let_def test_host_def test_world_def
  test_shell_def int_to_dec_def nat_to_dec.simps digit_char_def





text \<open>
  Claim C6, as amended. \<open>ExecuteCommand\<close> never returns an error, whatever \<open>cmd.Run()\<close>
  reports: it always returns a record. When the run reports no error the status is
  \<open>completed\<close> and the error field is the captured stderr. When the run reports an error,
  be it a non-zero exit or a failure to start the shell, the status is \<open>failed\<close> and the
  error field is the error's message, a colon and a space, then the captured stderr.
\<close>

theorem ExecuteCommand_never_raises:
  "\<exists>result w'. ExecuteCommand h command workingDir w = (Inr result, w')
     \<and> CmdCommand result = command \<and> WorkingDir result = workingDir
     \<and> Output result = proc_stdout (fst (exec_Run h command workingDir (snd (time_Now h w))))
     \<and> CmdStatus result =
         (case proc_err (fst (exec_Run h command workingDir (snd (time_Now h w)))) of
            None \<Rightarrow> ''completed'' | Some e \<Rightarrow> ''failed'')
     \<and> CmdError result =
         (case proc_err (fst (exec_Run h command workingDir (snd (time_Now h w)))) of
            None \<Rightarrow> proc_stderr (fst (exec_Run h command workingDir (snd (time_Now h w))))
          | Some e \<Rightarrow> run_error_msg e @ '': ''
              @ proc_stderr (fst (exec_Run h command workingDir (snd (time_Now h w)))))"
  by (auto simp: ExecuteCommand_def Let_def split: prod.splits option.splits)

text \<open>The theorem at the command \<open>false\<close>, which exits with status 1 and prints nothing.\<close>

theorem ExecuteCommand_never_raises_witness:
  "\<exists>result w'. ExecuteCommand test_host ''false'' ''/ws'' test_world = (Inr result, w')
     \<and> CmdStatus result = ''failed'' \<and> CmdError result = ''exit status 1: ''"
proof -
  have p: "fst (exec_Run test_host ''false'' ''/ws'' (snd (time_Now test_host test_world)))
      = \<lparr>proc_stdout = [], proc_stderr = [], proc_err = Some (ExitError ''exit status 1'')\<rparr>"
    by (simp add: test_host_def test_shell_def)
  from ExecuteCommand_never_raises [of test_host "''false''" "''/ws''" test_world, unfolded p]
  show ?thesis by auto
qed

text \<open>
  Claim C6 as stated fails in its last part: on a host where the shell cannot be started,
  \<open>ExecuteCommand\<close> still returns a record with status \<open>failed\<close> and no error.
\<close>

theorem shell_start_failure_not_raised_counterexample:
  "proc_err (fst (exec_Run test_host_no_shell ''ls'' ''/ws'' (snd (time_Now test_host_no_shell test_world))))
     = Some (StartError (''exec: '' @ dq @ ''sh'' @ dq @ '': executable file not found in $PATH''))
   \<and> fst (ExecuteCommand test_host_no_shell ''ls'' ''/ws'' test_world)
     = Inr \<lparr>CmdID = ''cmd_1000'', CmdCommand = ''ls'', WorkingDir = ''/ws'', CmdStatus = ''failed'',
            Output = [],
            CmdError = ''exec: '' @ dq @ ''sh'' @ dq @ '': executable file not found in $PATH: '',
            CmdCreatedAt = 1000\<rparr>"
  by (simp add: test_host_no_shell_def command_eval)



section \<open>The terminal agent's verdict\<close>

text \<open>
  Claim C5, as amended. For a terminal task whose instruction is a string and for which
  the language model produces a command, the agent returns a result whose \<open>Success\<close> flag
  is true exactly when the run of the command reported no error and its captured stderr is
  empty: a command that ends unsuccessfully is not a success even when it prints nothing
  to stderr.
\<close>

theorem TerminalAgent_success_iff_no_error_text:
  assumes "as_string (Data task ''instruction'') = Some instruction"
    and "GenerateCommand llm instruction w = (Inr command, w1)"
    and "workingDir = (case as_string (Data task ''workspace_dir'') of Some d \<Rightarrow> d | None \<Rightarrow> ''.'')"
    and "exec_Run h command workingDir (snd (time_Now h w1)) = (p, w2)"
  shows "\<exists>res. TerminalAgentImpl_Execute h llm task w = (Inr res, w2)
           \<and> Success res = (proc_err p = None \<and> proc_stderr p = [])"
  using assms
  by (auto simp: TerminalAgentImpl_Execute_def ExecuteCommand_def Let_def
      split: prod.splits option.splits)

text \<open>The theorem at a command that succeeds but writes a warning to stderr.\<close>

theorem TerminalAgent_success_iff_no_error_text_witness:
  "\<exists>res. TerminalAgentImpl_Execute test_host test_llm (terminal_task ''warn'') test_world
       = (Inr res, test_world\<lparr>clock := 1001, calls := [''llm GenerateCommand'', ''sh warn'']\<rparr>)
     \<and> Success res = False"
proof -
  have h1: "as_string (Data (terminal_task ''warn'') ''instruction'') = Some ''warn''"
    by (simp add: terminal_task_def)
  have h2: "GenerateCommand test_llm ''warn'' test_world
      = (Inr ''warn'', test_world\<lparr>calls := [''llm GenerateCommand'']\<rparr>)"
    by (simp add: test_llm_def test_world_def)
  have h3: "''/ws'' = (case as_string (Data (terminal_task ''warn'') ''workspace_dir'') of
      Some d \<Rightarrow> d | None \<Rightarrow> ''.'')"
    by (simp add: terminal_task_def)
  have h4: "exec_Run test_host ''warn'' ''/ws''
        (snd (time_Now test_host (test_world\<lparr>calls := [''llm GenerateCommand'']\<rparr>)))
      = (\<lparr>proc_stdout = ''done'', proc_stderr = ''warning'', proc_err = None\<rparr>,
         test_world\<lparr>clock := 1001, calls := [''llm GenerateCommand'', ''sh warn'']\<rparr>)"
    by (simp add: test_host_def test_world_def test_shell_def)
  from TerminalAgent_success_iff_no_error_text [OF h1 h2 h3 h4]
  show ?thesis by simp
qed

text \<open>
  Claim C5 as stated fails: the command \<open>false\<close> is started, its captured stderr is empty,
  and the result has \<open>Success = False\<close>.
\<close>

theorem failed_command_with_empty_stderr_counterexample:
  "proc_stderr (fst (exec_Run test_host ''false'' ''/ws''
       (snd (time_Now test_host (snd (GenerateCommand test_llm ''false'' test_world)))))) = []
   \<and> fst (TerminalAgentImpl_Execute test_host test_llm (terminal_task ''false'') test_world)
     = Inr \<lparr>Success = False,
            ResultData = [''command'' \<mapsto> VString ''false'', ''output'' \<mapsto> VString [],
                          ''error'' \<mapsto> VString ''exit status 1: ''],
            Error = []\<rparr>"
  by (simp add: TerminalAgentImpl_Execute_def terminal_task_def test_llm_def command_eval)

section \<open>Updating a file\<close>




section \<open>Routing a request\<close>

lemma Contains_iff_sublist: "Contains s substr = sublist substr s"
  by (induction s) (simp_all add: sublist_Cons_right)

lemma keyword_loop_iff: "keyword_loop inputLower ks = (\<exists>k\<in>set ks. Contains inputLower k)"
  by (induction ks) simp_all

lemma isTerminalIntent_iff:
  "isTerminalIntent h request
     = (\<exists>k\<in>set terminal_keywords. sublist k (strings_ToLower h request))"
  by (simp add: isTerminalIntent_def keyword_loop_iff Contains_iff_sublist)

lemma new_task_fields:
  "new_task h ty descr payload w = (task, w1) \<Longrightarrow>
     Type task = ty \<and> Data task = payload \<and> Status task = TaskPending \<and> Result task = None
     \<and> Description task = descr \<and> w1 = snd (time_Now h (snd (time_Now h w)))
     \<and> ID task = ''task_'' @ int_to_dec (fst (time_Now h w))"
  by (auto simp: new_task_def generateTaskID_def Let_def split: prod.splits)

lemma new_task_cases:
  obtains task w1 where "new_task h ty descr payload w = (task, w1)"
    and "Type task = ty" and "Data task = payload" and "Status task = TaskPending"
proof -
  obtain task w1 where nt: "new_task h ty descr payload w = (task, w1)"
    by (cases "new_task h ty descr payload w")
  from new_task_fields [OF nt] nt that show thesis by blast
qed

lemma ProcessUserRequest_builds_task:
  "\<exists>task w1.
        Status task = TaskPending
        \<and> Type task = (if isTerminalIntent h request then TerminalAgent else PlanningAgent)
        \<and> Data task =
            (if isTerminalIntent h request
             then [''instruction'' \<mapsto> VString request, ''workspace_dir'' \<mapsto> VString workspaceDir]
             else [''request'' \<mapsto> VString request, ''workspace_dir'' \<mapsto> VString workspaceDir])
        \<and> history (ProcessUserRequest h s request workspaceDir w)
            = history (ExecuteTask h s task w1)
        \<and> system (ProcessUserRequest h s request workspaceDir w)
            = system (ExecuteTask h s task w1)
        \<and> world (ProcessUserRequest h s request workspaceDir w)
            = world (ExecuteTask h s task w1)
        \<and> returned (ProcessUserRequest h s request workspaceDir w)
            = (case returned (ExecuteTask h s task w1) of
                 Returned result \<Rightarrow> Returned result
               | Raised r e \<Rightarrow>
                   if isTerminalIntent h request then Raised r e
                   else Raised None (''failed to process request: '' @ e))"
proof (cases "isTerminalIntent h request")
  case True
  obtain task w1 where nt: "new_task h TerminalAgent ''Execute terminal command (intent classified)''
      [''instruction'' \<mapsto> VString request, ''workspace_dir'' \<mapsto> VString workspaceDir] w = (task, w1)"
    and f: "Type task = TerminalAgent"
      "Data task = [''instruction'' \<mapsto> VString request, ''workspace_dir'' \<mapsto> VString workspaceDir]"
      "Status task = TaskPending"
    by (rule new_task_cases)
  have "ProcessUserRequest h s request workspaceDir w = ExecuteTask h s task w1"
    using True nt by (simp add: ProcessUserRequest_def)
  with True f show ?thesis
    by (intro exI [of _ task] exI [of _ w1]) (simp split: TaskReturn.splits)
next
  case False
  obtain task w1 where nt: "new_task h PlanningAgent ''Plan and execute user request''
      [''request'' \<mapsto> VString request, ''workspace_dir'' \<mapsto> VString workspaceDir] w = (task, w1)"
    and f: "Type task = PlanningAgent"
      "Data task = [''request'' \<mapsto> VString request, ''workspace_dir'' \<mapsto> VString workspaceDir]"
      "Status task = TaskPending"
    by (rule new_task_cases)
  have "ProcessUserRequest h s request workspaceDir w =
      (case returned (ExecuteTask h s task w1) of
         Raised r e \<Rightarrow> (ExecuteTask h s task w1)\<lparr>returned := Raised None (''failed to process request: '' @ e)\<rparr>
       | Returned result \<Rightarrow> ExecuteTask h s task w1)"
    using False nt by (simp add: ProcessUserRequest_def Let_def)
  with False f show ?thesis
    by (intro exI [of _ task] exI [of _ w1]) (simp split: TaskReturn.splits)
qed

text \<open>
  Claim C9. The request is a terminal request exactly when its lower-cased text, as
  \<open>strings.ToLower\<close> computes it, contains one of the eight fixed phrases. The test is
  case-insensitive: two requests with the same lower-cased text are classified alike.
  \<open>ProcessUserRequest\<close> then builds a Pending task and runs it through \<open>ExecuteTask\<close>: a
  terminal task carrying the request as \<open>instruction\<close> when the request is a terminal
  request, and otherwise a planning task carrying the raw request as \<open>request\<close>. The
  outcome is the one of that execution, except that an error of the planning task is
  wrapped and returned without a result.
\<close>

theorem ProcessUserRequest_routes_by_keyword:
  "isTerminalIntent h request
     = (\<exists>k\<in>set [''run in terminal'', ''execute'', ''open terminal'', ''run command'',
                  ''shell'', ''bash'', ''powershell'', ''/run''].
          sublist k (strings_ToLower h request))
   \<and> (strings_ToLower h request = strings_ToLower h request'
        \<longrightarrow> isTerminalIntent h request = isTerminalIntent h request')
   \<and> (\<exists>task w1.
        Status task = TaskPending
        \<and> Type task = (if isTerminalIntent h request then TerminalAgent else PlanningAgent)
        \<and> Data task =
            (if isTerminalIntent h request
             then [''instruction'' \<mapsto> VString request, ''workspace_dir'' \<mapsto> VString workspaceDir]
             else [''request'' \<mapsto> VString request, ''workspace_dir'' \<mapsto> VString workspaceDir])
        \<and> history (ProcessUserRequest h s request workspaceDir w)
            = history (ExecuteTask h s task w1)
        \<and> system (ProcessUserRequest h s request workspaceDir w)
            = system (ExecuteTask h s task w1)
        \<and> world (ProcessUserRequest h s request workspaceDir w)
            = world (ExecuteTask h s task w1)
        \<and> returned (ProcessUserRequest h s request workspaceDir w)
            = (case returned (ExecuteTask h s task w1) of
                 Returned result \<Rightarrow> Returned result
               | Raised r e \<Rightarrow>
                   if isTerminalIntent h request then Raised r e
                   else Raised None (''failed to process request: '' @ e)))"
proof (intro conjI)
  show "isTerminalIntent h request
     = (\<exists>k\<in>set [''run in terminal'', ''execute'', ''open terminal'', ''run command'',
                  ''shell'', ''bash'', ''powershell'', ''/run''].
          sublist k (strings_ToLower h request))"
    using isTerminalIntent_iff [of h request] unfolding terminal_keywords_def .
next
  show "strings_ToLower h request = strings_ToLower h request'
        \<longrightarrow> isTerminalIntent h request = isTerminalIntent h request'"
    by (simp add: isTerminalIntent_def)
next
  show "\<exists>task w1.
        Status task = TaskPending
        \<and> Type task = (if isTerminalIntent h request then TerminalAgent else PlanningAgent)
        \<and> Data task =
            (if isTerminalIntent h request
             then [''instruction'' \<mapsto> VString request, ''workspace_dir'' \<mapsto> VString workspaceDir]
             else [''request'' \<mapsto> VString request, ''workspace_dir'' \<mapsto> VString workspaceDir])
        \<and> history (ProcessUserRequest h s request workspaceDir w)
            = history (ExecuteTask h s task w1)
        \<and> system (ProcessUserRequest h s request workspaceDir w)
            = system (ExecuteTask h s task w1)
        \<and> world (ProcessUserRequest h s request workspaceDir w)
            = world (ExecuteTask h s task w1)
        \<and> returned (ProcessUserRequest h s request workspaceDir w)
            = (case returned (ExecuteTask h s task w1) of
                 Returned result \<Rightarrow> Returned result
               | Raised r e \<Rightarrow>
                   if isTerminalIntent h request then Raised r e
                   else Raised None (''failed to process request: '' @ e))"
    by (rule ProcessUserRequest_builds_task)
qed

text \<open>
  The two requests of the specification, and a request in mixed case. The first is a
  terminal request and reaches the shell without the planning agent's chat being called;
  the second is handed to the planning agent; the third has the lower-cased text of the
  first and is a terminal request too, and its task carries the request as it was typed.
\<close>

theorem ProcessUserRequest_routes_by_keyword_witness:
  "isTerminalIntent test_host ''please open terminal and list files'' = True
   \<and> map Type (history (ProcessUserRequest test_host test_system
         ''please open terminal and list files'' ''/ws'' test_world))
       = [TerminalAgent, TerminalAgent, TerminalAgent]
   \<and> calls (world (ProcessUserRequest test_host test_system
         ''please open terminal and list files'' ''/ws'' test_world))
       = [''llm GenerateCommand'', ''sh please open terminal and list files'']
   \<and> isTerminalIntent test_host ''help me understand this module'' = False
   \<and> map Type (history (ProcessUserRequest test_host test_system
         ''help me understand this module'' ''/ws'' test_world))
       = [PlanningAgent, PlanningAgent, PlanningAgent]
   \<and> Data (hd (history (ProcessUserRequest test_host test_system
         ''help me understand this module'' ''/ws'' test_world))) ''request''
       = Some (VString ''help me understand this module'')
   \<and> calls (world (ProcessUserRequest test_host test_system
         ''help me understand this module'' ''/ws'' test_world))
       = [''llm Chat'']
   \<and> isTerminalIntent test_host ''Please OPEN Terminal and list files'' = True
   \<and> map Type (history (ProcessUserRequest test_host test_system
         ''Please OPEN Terminal and list files'' ''/ws'' test_world))
       = [TerminalAgent, TerminalAgent, TerminalAgent]
   \<and> Data (hd (history (ProcessUserRequest test_host test_system
         ''Please OPEN Terminal and list files'' ''/ws'' test_world))) ''instruction''
       = Some (VString ''Please OPEN Terminal and list files'')"
proof -
  have lower: "strings_ToLower test_host = ascii_ToLower"
    by (simp add: test_host_def)
  have a: "isTerminalIntent test_host ''please open terminal and list files''"
    using ProcessUserRequest_routes_by_keyword [of test_host
        "''please open terminal and list files''", THEN conjunct1]
    unfolding lower
    by (simp add: ascii_ToLower_def to_lower_char_def Contains_iff_sublist [symmetric])
  have b: "\<not> isTerminalIntent test_host ''help me understand this module''"
    using ProcessUserRequest_routes_by_keyword [of test_host
        "''help me understand this module''", THEN conjunct1]
    unfolding lower
    by (simp add: ascii_ToLower_def to_lower_char_def Contains_iff_sublist [symmetric])
  have same: "strings_ToLower test_host ''Please OPEN Terminal and list files''
      = strings_ToLower test_host ''please open terminal and list files''"
    unfolding lower by (simp add: ascii_ToLower_def to_lower_char_def)
  have c: "isTerminalIntent test_host ''Please OPEN Terminal and list files''"
    using ProcessUserRequest_routes_by_keyword [of test_host
        "''Please OPEN Terminal and list files''" "''please open terminal and list files''",
        THEN conjunct2, THEN conjunct1] same a
    by simp
  have run: "isTerminalIntent test_host request \<Longrightarrow>
      ProcessUserRequest test_host test_system request ''/ws'' test_world
        = (let (task, w1) = new_task test_host TerminalAgent
                 ''Execute terminal command (intent classified)''
                 [''instruction'' \<mapsto> VString request, ''workspace_dir'' \<mapsto> VString ''/ws'']
                 test_world
           in ExecuteTask test_host test_system task w1)" for request
    by (simp add: ProcessUserRequest_def)
  have plan: "\<not> isTerminalIntent test_host request \<Longrightarrow>
      ProcessUserRequest test_host test_system request ''/ws'' test_world
        = (let (planningTask, w1) = new_task test_host PlanningAgent
                 ''Plan and execute user request''
                 [''request'' \<mapsto> VString request, ''workspace_dir'' \<mapsto> VString ''/ws'']
                 test_world;
               out = ExecuteTask test_host test_system planningTask w1
           in case returned out of
                Raised r e \<Rightarrow> out\<lparr>returned := Raised None (''failed to process request: '' @ e)\<rparr>
              | Returned result \<Rightarrow> out)" for request
    by (simp add: ProcessUserRequest_def)
  have ra: "map Type (history (ProcessUserRequest test_host test_system
         ''please open terminal and list files'' ''/ws'' test_world))
       = [TerminalAgent, TerminalAgent, TerminalAgent]
     \<and> calls (world (ProcessUserRequest test_host test_system
         ''please open terminal and list files'' ''/ws'' test_world))
       = [''llm GenerateCommand'', ''sh please open terminal and list files'']"
    unfolding run [OF a]
    by (simp add: new_task_def generateTaskID_def ExecuteTask_def
        TerminalAgentImpl_Execute_def ExecuteCommand_def Let_def test_defs test_shell_def)
  have rb: "map Type (history (ProcessUserRequest test_host test_system
         ''help me understand this module'' ''/ws'' test_world))
       = [PlanningAgent, PlanningAgent, PlanningAgent]
     \<and> Data (hd (history (ProcessUserRequest test_host test_system
         ''help me understand this module'' ''/ws'' test_world))) ''request''
       = Some (VString ''help me understand this module'')
     \<and> calls (world (ProcessUserRequest test_host test_system
         ''help me understand this module'' ''/ws'' test_world))
       = [''llm Chat'']"
    unfolding plan [OF b]
    by (simp add: new_task_def generateTaskID_def ExecuteTask_def
        PlanningAgentImpl_Execute_def createGenericPlan_def HasPrefix_def Let_def test_defs)
  have rc: "map Type (history (ProcessUserRequest test_host test_system
         ''Please OPEN Terminal and list files'' ''/ws'' test_world))
       = [TerminalAgent, TerminalAgent, TerminalAgent]
     \<and> Data (hd (history (ProcessUserRequest test_host test_system
         ''Please OPEN Terminal and list files'' ''/ws'' test_world))) ''instruction''
       = Some (VString ''Please OPEN Terminal and list files'')"
    unfolding run [OF c]
    by (simp add: new_task_def generateTaskID_def ExecuteTask_def
        TerminalAgentImpl_Execute_def ExecuteCommand_def Let_def test_defs test_shell_def)
  from a b c ra rb rc show ?thesis by simp
qed

section \<open>Dispatching a special command\<close>

text \<open>
  Claim C10. For each of the four verbs of the table, \<open>HandleCommand\<close> builds a Pending
  task of the documented kind whose payload maps the documented key to the arguments
  (and \<open>workspace_dir\<close> to the directory), and runs it through \<open>ExecuteTask\<close>. For every
  other verb it returns the error \<open>unknown command: verb\<close> with no result, builds no task
  and leaves the system and the world untouched.
\<close>

theorem HandleCommand_dispatch:
  "case spec_dispatch command of
     Some (kind, key) \<Rightarrow>
       (\<exists>task w1. Status task = TaskPending \<and> Type task = kind
          \<and> Data task = [key \<mapsto> VString args, ''workspace_dir'' \<mapsto> VString workspaceDir]
          \<and> HandleCommand h s command args workspaceDir w = ExecuteTask h s task w1)
   | None \<Rightarrow>
       HandleCommand h s command args workspaceDir w
         = \<lparr>returned = Raised None (''unknown command: '' @ command), history = [],
            system = s, world = w\<rparr>"
proof -
  have built: "\<exists>task w1. Status task = TaskPending \<and> Type task = ty \<and> Data task = payload
      \<and> (let (task, w1) = new_task h ty descr payload w in ExecuteTask h s task w1)
          = ExecuteTask h s task w1" for ty descr payload
  proof -
    obtain task w1 where "new_task h ty descr payload w = (task, w1)"
      and "Type task = ty" and "Data task = payload" and "Status task = TaskPending"
      by (rule new_task_cases)
    then show ?thesis by auto
  qed
  show ?thesis
    using built [of DebugAgent] built [of TerminalAgent] built [of PlanningAgent]
    by (simp add: spec_dispatch_def HandleCommand_def handleFixCommand_def handleRunCommand_def
        handleExplainCommand_def handleCreateProjectCommand_def)
qed

text \<open>The theorem at an unknown verb, and the task built for \<open>/fix\<close>.\<close>

theorem HandleCommand_dispatch_witness:
  "HandleCommand test_host test_system ''/frobnicate'' [] ''/ws'' test_world
     = \<lparr>returned = Raised None ''unknown command: /frobnicate'', history = [],
        system = test_system, world = test_world\<rparr>
   \<and> map Type (history (HandleCommand test_host test_system ''/fix'' ''boom'' ''/ws'' test_world))
     = [DebugAgent, DebugAgent, DebugAgent]
   \<and> Data (hd (history (HandleCommand test_host test_system ''/fix'' ''boom'' ''/ws'' test_world)))
        ''error_output''
     = Some (VString ''boom'')"
proof -
  have a: "HandleCommand test_host test_system ''/frobnicate'' [] ''/ws'' test_world
     = \<lparr>returned = Raised None ''unknown command: /frobnicate'', history = [],
        system = test_system, world = test_world\<rparr>"
    using HandleCommand_dispatch [where command = "''/frobnicate''" and args = "[]"
        and workspaceDir = "''/ws''" and h = test_host and s = test_system and w = test_world]
    by (simp add: spec_dispatch_def)
  have b: "map Type (history (HandleCommand test_host test_system ''/fix'' ''boom'' ''/ws'' test_world))
     = [DebugAgent, DebugAgent, DebugAgent]
   \<and> Data (hd (history (HandleCommand test_host test_system ''/fix'' ''boom'' ''/ws'' test_world)))
        ''error_output''
     = Some (VString ''boom'')"
    by (simp add: HandleCommand_def handleFixCommand_def new_task_def generateTaskID_def
        ExecuteTask_def DebugAgentImpl_Execute_def identifyErrorFile_def generateFix_def
        Let_def test_defs)
  from a b show ?thesis by simp
qed

end
